theory Spec2Isabelle
  imports Main "HOL-Library.AList" "HOL-Library.Sublist"
begin

section \<open>Values, files and the environment\<close>

text \<open>
  The servers exchange JSON documents, checkpoints in the safetensors format and numpy
  archives with the file system. A JSON document is kept as the value handed to
  \<^verbatim>\<open>json.dump\<close>; floating point numbers are an abstract type \<open>'f\<close>, torch tensors an
  abstract type \<open>'t\<close> and numpy arrays an abstract type \<open>'a\<close>: the code only moves them
  around, and every operation on them is a parameter taken from the library records below.
\<close>

datatype 'f json =
    JNull
  | JBool bool
  | JInt int
  | JFloat 'f
  | JStr string
  | JList "'f json list"
  | JObj "(string \<times> 'f json) list"

type_synonym path = string

text \<open>
  A regular file is a checkpoint (the dict that \<^verbatim>\<open>load_file\<close> returns, as the list of
  its items, names distinct), a numpy archive (the items of \<^verbatim>\<open>np.load\<close>), a JSON document or
  any other content. Two files are byte-identical when they are equal. Directories are
  not represented: a path names a regular file or nothing.
\<close>

datatype ('f, 't, 'a) file_content =
    SafetensorsFile "(string \<times> 't) list"
  | NpzFile "(string \<times> 'a) list"
  | JsonFile "'f json"
  | RawFile string

type_synonym ('f, 't, 'a) fs = "(path \<times> ('f, 't, 'a) file_content) list"

text \<open>
  Exceptions: the handlers of the source only read \<^verbatim>\<open>str(e)\<close>, so a Python exception is
  its message; an \<^verbatim>\<open>HTTPException\<close> keeps its status code and detail.
\<close>

datatype exn = HTTPException nat string | PyError string

text \<open>
  Calls into the operating system and the serialisation libraries can fail for reasons
  the program does not control (permissions, locks, a full disk). The environment says
  for each such call whether it raises, and with which message.
\<close>

datatype fs_op =
    LoadFile path
  | NpLoad path
  | Copy2 path path
  | SaveFile path
  | MoveFileExW path path
  | Replace path path
  | Remove path
  | Rename path path
  | Makedirs path
  | Savez path
  | JsonDump path
  | Listdir path
  | ReadBytes path

record ('f, 't, 'a) env =
  os_name :: string
  fails :: "fs_op \<Rightarrow> string option"
  save_file_partial :: bool
  now_ms :: nat
  urandom_hex :: string
  strftime_now :: string
  time_time :: "nat \<Rightarrow> 'f"
  abspath :: "path \<Rightarrow> path"
  python_version :: string
  uname :: "(string \<times> string) list"
  torch_version :: string
  py_hash :: "string \<Rightarrow> int"
  http_exception_str :: "nat \<Rightarrow> string \<Rightarrow> string"
  str_lower :: "string \<Rightarrow> string"
  sha256_hex :: "string \<Rightarrow> string"
  file_sha256 :: "('f, 't, 'a) file_content \<Rightarrow> string"

text \<open>
  \<open>py_hash\<close> is the built-in \<^verbatim>\<open>hash\<close> of the running interpreter on strings: it is salted
  per process, so it belongs to the environment of one run and not to the program.
\<close>

definition exn_str :: "('f, 't, 'a) env \<Rightarrow> exn \<Rightarrow> string" where
  "exn_str E e = (case e of HTTPException code detail \<Rightarrow> http_exception_str E code detail
                   | PyError msg \<Rightarrow> msg)"

record ('t, 'a) torch =
  add_diff :: "'t \<Rightarrow> 'a \<Rightarrow> string + 't"
  numel :: "'t \<Rightarrow> nat"
  diff_numel :: "'a \<Rightarrow> nat"

text \<open>
  \<open>add_diff tensor d\<close> is \<^verbatim>\<open>tensor + torch.from_numpy(d).to(tensor.device)\<close>, which raises
  on a shape or type it cannot combine.
\<close>

subsection \<open>Jobs and the state of the server\<close>

record 'f unlearning_request =
  model_path :: path
  output_dir :: path
  target_text :: string
  "method" :: string
  max_steps :: int
  lr :: 'f
  seed :: int

record 'f job =
  state :: string
  progress :: "nat \<times> string"
  result :: "(string \<times> 'f json) list option"
  error :: "string option"
  request :: "'f unlearning_request"

text \<open>
  The server state is the global \<^verbatim>\<open>jobs\<close> dict, the tasks handed to the event loop
  that have not started yet, and the file system. Two history variables record what an
  observer could have seen: \<open>trace\<close> gets the record of a job after each assignment to
  it, \<open>past\<close> the file system before each change of it.
\<close>

record ('f, 't, 'a) world =
  jobs :: "string \<rightharpoonup> 'f job"
  tasks :: "(string \<times> 'f unlearning_request) list"
  files :: "('f, 't, 'a) fs"
  trace :: "(string \<times> 'f job) list"
  past :: "('f, 't, 'a) fs list"

subsection \<open>Statements that may raise\<close>

type_synonym ('x, 'w) action = "'w \<Rightarrow> (exn + 'x) \<times> 'w"

definition ret :: "'x \<Rightarrow> ('x, 'w) action" where
  "ret x w = (Inr x, w)"

definition raise :: "exn \<Rightarrow> ('x, 'w) action" where
  "raise e w = (Inl e, w)"

definition andthen :: "('x, 'w) action \<Rightarrow> ('x \<Rightarrow> ('y, 'w) action) \<Rightarrow> ('y, 'w) action" where
  "andthen m f w = (case m w of (Inl e, w') \<Rightarrow> (Inl e, w') | (Inr x, w') \<Rightarrow> f x w')"

definition catch :: "('x, 'w) action \<Rightarrow> (exn \<Rightarrow> ('x, 'w) action) \<Rightarrow> ('x, 'w) action" where
  "catch m h w = (case m w of (Inl e, w') \<Rightarrow> h e w' | (Inr x, w') \<Rightarrow> (Inr x, w'))"

subsection \<open>File system calls\<close>

definition path_exists :: "('f, 't, 'a) fs \<Rightarrow> path \<Rightarrow> bool" where
  "path_exists fs p = (map_of fs p \<noteq> None)"

definition put_file ::
  "path \<Rightarrow> ('f, 't, 'a) file_content \<Rightarrow> ('f, 't, 'a) world \<Rightarrow> ('f, 't, 'a) world" where
  "put_file p c w = w\<lparr>files := AList.update p c (files w), past := files w # past w\<rparr>"

definition drop_file :: "path \<Rightarrow> ('f, 't, 'a) world \<Rightarrow> ('f, 't, 'a) world" where
  "drop_file p w = w\<lparr>files := AList.delete p (files w), past := files w # past w\<rparr>"

definition no_such_file :: "path \<Rightarrow> exn" where
  "no_such_file p = PyError (''[Errno 2] No such file or directory: '' @ p)"

definition load_file ::
  "('f, 't, 'a) env \<Rightarrow> path \<Rightarrow> ((string \<times> 't) list, ('f, 't, 'a) world) action" where
  "load_file E p w =
     (case fails E (LoadFile p) of
        Some msg \<Rightarrow> raise (PyError msg) w
      | None \<Rightarrow>
          (case map_of (files w) p of
             None \<Rightarrow> raise (no_such_file p) w
           | Some (SafetensorsFile d) \<Rightarrow> ret d w
           | Some _ \<Rightarrow> raise (PyError ''Error while deserializing header'') w))"

definition np_load ::
  "('f, 't, 'a) env \<Rightarrow> path \<Rightarrow> ((string \<times> 'a) list, ('f, 't, 'a) world) action" where
  "np_load E p w =
     (case fails E (NpLoad p) of
        Some msg \<Rightarrow> raise (PyError msg) w
      | None \<Rightarrow>
          (case map_of (files w) p of
             None \<Rightarrow> raise (no_such_file p) w
           | Some (NpzFile items) \<Rightarrow> ret items w
           | Some _ \<Rightarrow> raise (PyError ''Cannot load file as a numpy archive'') w))"

definition shutil_copy2 ::
  "('f, 't, 'a) env \<Rightarrow> path \<Rightarrow> path \<Rightarrow> (unit, ('f, 't, 'a) world) action" where
  "shutil_copy2 E src dst w =
     (case fails E (Copy2 src dst) of
        Some msg \<Rightarrow> raise (PyError msg) w
      | None \<Rightarrow>
          (case map_of (files w) src of
             None \<Rightarrow> raise (no_such_file src) w
           | Some c \<Rightarrow> ret () (put_file dst c w)))"

definition save_file ::
  "('f, 't, 'a) env \<Rightarrow> (string \<times> 't) list \<Rightarrow> path \<Rightarrow> (unit, ('f, 't, 'a) world) action" where
  "save_file E d p w =
     (case fails E (SaveFile p) of
        Some msg \<Rightarrow>
          raise (PyError msg) (if save_file_partial E then put_file p (RawFile []) w else w)
      | None \<Rightarrow> ret () (put_file p (SafetensorsFile d) w))"

definition move_over ::
  "path \<Rightarrow> path \<Rightarrow> (unit, ('f, 't, 'a) world) action" where
  "move_over src dst w =
     (case map_of (files w) src of
        None \<Rightarrow> raise (no_such_file src) w
      | Some c \<Rightarrow>
          ret () (w\<lparr>files := AList.delete src (AList.update dst c (files w)),
                    past := files w # past w\<rparr>))"

definition os_replace ::
  "('f, 't, 'a) env \<Rightarrow> path \<Rightarrow> path \<Rightarrow> (unit, ('f, 't, 'a) world) action" where
  "os_replace E src dst w =
     (case fails E (Replace src dst) of
        Some msg \<Rightarrow> raise (PyError msg) w
      | None \<Rightarrow> move_over src dst w)"

definition os_rename ::
  "('f, 't, 'a) env \<Rightarrow> path \<Rightarrow> path \<Rightarrow> (unit, ('f, 't, 'a) world) action" where
  "os_rename E src dst w =
     (case fails E (Rename src dst) of
        Some msg \<Rightarrow> raise (PyError msg) w
      | None \<Rightarrow> move_over src dst w)"

definition os_remove ::
  "('f, 't, 'a) env \<Rightarrow> path \<Rightarrow> (unit, ('f, 't, 'a) world) action" where
  "os_remove E p w =
     (case fails E (Remove p) of
        Some msg \<Rightarrow> raise (PyError msg) w
      | None \<Rightarrow>
          (if path_exists (files w) p then ret () (drop_file p w)
           else raise (no_such_file p) w))"

text \<open>
  \<^verbatim>\<open>MoveFileExW\<close> with \<^verbatim>\<open>MOVEFILE_REPLACE_EXISTING\<close> reports failure by returning zero;
  it does not raise.
\<close>

definition MoveFileEx ::
  "('f, 't, 'a) env \<Rightarrow> path \<Rightarrow> path \<Rightarrow> (bool, ('f, 't, 'a) world) action" where
  "MoveFileEx E src dst w =
     (case fails E (MoveFileExW src dst) of
        Some msg \<Rightarrow> ret False w
      | None \<Rightarrow>
          (case move_over src dst w of
             (Inl e, w') \<Rightarrow> ret False w'
           | (Inr u, w') \<Rightarrow> ret True w'))"

section \<open>The checkpoint injector\<close>

datatype injection_result =
    InjectionSuccess nat nat nat path
  | InjectionFailure string

text \<open>
  \<open>InjectionSuccess injected_tensors total_params modified_params backup_path\<close> is the
  dict returned with \<^verbatim>\<open>"success": True\<close>, \<open>InjectionFailure error\<close> the one with
  \<^verbatim>\<open>"success": False\<close>.

  The loop over the items of the checkpoint. Assigning under a name that the new dict
  does not hold yet appends the item.
\<close>

fun inject_loop ::
  "('t, 'a) torch \<Rightarrow> (string \<times> 'a) list \<Rightarrow> (string \<times> 't) list \<Rightarrow>
   (string \<times> 't) list \<times> nat \<times> nat \<times> nat \<Rightarrow>
   exn + (string \<times> 't) list \<times> nat \<times> nat \<times> nat" where
  "inject_loop T diff_dict [] acc = Inr acc"
| "inject_loop T diff_dict ((name, tensor) # rest)
     (modified_state_dict, injected_tensors, total_params, modified_params) =
     (case map_of diff_dict name of
        Some d \<Rightarrow>
          (case add_diff T tensor d of
             Inl msg \<Rightarrow> Inl (PyError msg)
           | Inr modified_tensor \<Rightarrow>
               inject_loop T diff_dict rest
                 (modified_state_dict @ [(name, modified_tensor)], injected_tensors + 1,
                  total_params + numel T tensor, modified_params + diff_numel T d))
      | None \<Rightarrow>
          inject_loop T diff_dict rest
            (modified_state_dict @ [(name, tensor)], injected_tensors,
             total_params + numel T tensor, modified_params))"

definition replace_checkpoint ::
  "('f, 't, 'a) env \<Rightarrow> path \<Rightarrow> path \<Rightarrow> (unit, ('f, 't, 'a) world) action" where
  "replace_checkpoint E temp_path original_model_path =
     catch
       (if os_name E = ''nt'' then
          andthen (MoveFileEx E temp_path original_model_path) (\<lambda>moved.
            if moved then ret () else os_replace E temp_path original_model_path)
        else os_replace E temp_path original_model_path)
       (\<lambda>move_error.
          catch
            (andthen (os_remove E original_model_path) (\<lambda>_.
               os_rename E temp_path original_model_path))
            (\<lambda>fallback_error. raise move_error))"

definition inject_try ::
  "('f, 't, 'a) env \<Rightarrow> ('t, 'a) torch \<Rightarrow> path \<Rightarrow> path \<Rightarrow>
   (injection_result, ('f, 't, 'a) world) action" where
  "inject_try E T original_model_path weight_diffs_path =
     andthen (load_file E original_model_path) (\<lambda>original_state_dict.
     andthen (np_load E weight_diffs_path) (\<lambda>diff_dict.
     andthen (\<lambda>w. (inject_loop T diff_dict original_state_dict ([], 0, 0, 0), w))
       (\<lambda>(modified_state_dict, injected_tensors, total_params, modified_params).
     andthen (shutil_copy2 E original_model_path (original_model_path @ ''.backup'')) (\<lambda>_.
     andthen (save_file E modified_state_dict (original_model_path @ ''.temp'')) (\<lambda>_.
     andthen (replace_checkpoint E (original_model_path @ ''.temp'') original_model_path) (\<lambda>_.
     ret (InjectionSuccess injected_tensors total_params modified_params
            (original_model_path @ ''.backup''))))))))"

definition inject_weights_into_model ::
  "('f, 't, 'a) env \<Rightarrow> ('t, 'a) torch \<Rightarrow> path \<Rightarrow> path \<Rightarrow> ('f, 't, 'a) world \<Rightarrow>
   injection_result \<times> ('f, 't, 'a) world" where
  "inject_weights_into_model E T original_model_path weight_diffs_path w =
     (case inject_try E T original_model_path weight_diffs_path w of
        (Inr r, w') \<Rightarrow> (r, w')
      | (Inl e, w') \<Rightarrow>
          (InjectionFailure (exn_str E e),
           if path_exists (files w') (original_model_path @ ''.temp'')
           then snd (os_remove E (original_model_path @ ''.temp'') w')
           else w'))"

section \<open>Starting a job and asking for its status\<close>

definition digit_char :: "nat \<Rightarrow> char" where
  "digit_char n = ''0123456789'' ! n"

fun str_nat :: "nat \<Rightarrow> string" where
  "str_nat n = (if n < 10 then [digit_char n] else str_nat (n div 10) @ [digit_char (n mod 10)])"

definition assign_job ::
  "string \<Rightarrow> 'f job \<Rightarrow> ('f, 't, 'a) world \<Rightarrow> ('f, 't, 'a) world" where
  "assign_job job_id j w = w\<lparr>jobs := (jobs w)(job_id \<mapsto> j), trace := trace w @ [(job_id, j)]\<rparr>"

text \<open>
  \<^verbatim>\<open>jobs[job_id][field] = value\<close> raises \<^verbatim>\<open>KeyError\<close> when the job is not in the dict.
\<close>

definition update_job ::
  "string \<Rightarrow> ('f job \<Rightarrow> 'f job) \<Rightarrow> (unit, ('f, 't, 'a) world) action" where
  "update_job job_id f w =
     (case jobs w job_id of
        None \<Rightarrow> raise (PyError (CHR 0x27 # job_id @ [CHR 0x27])) w
      | Some j \<Rightarrow> ret () (assign_job job_id (f j) w))"

definition set_state :: "string \<Rightarrow> string \<Rightarrow> (unit, ('f, 't, 'a) world) action" where
  "set_state job_id s = update_job job_id (\<lambda>j. j\<lparr>state := s\<rparr>)"

definition set_progress ::
  "string \<Rightarrow> nat \<Rightarrow> string \<Rightarrow> (unit, ('f, 't, 'a) world) action" where
  "set_progress job_id percent message = update_job job_id (\<lambda>j. j\<lparr>progress := (percent, message)\<rparr>)"

definition set_result ::
  "string \<Rightarrow> (string \<times> 'f json) list \<Rightarrow> (unit, ('f, 't, 'a) world) action" where
  "set_result job_id r = update_job job_id (\<lambda>j. j\<lparr>result := Some r\<rparr>)"

definition set_error :: "string \<Rightarrow> string \<Rightarrow> (unit, ('f, 't, 'a) world) action" where
  "set_error job_id msg = update_job job_id (\<lambda>j. j\<lparr>error := Some msg\<rparr>)"

definition start_unlearning ::
  "('f, 't, 'a) env \<Rightarrow> 'f unlearning_request \<Rightarrow> (string, ('f, 't, 'a) world) action" where
  "start_unlearning E req w =
     (let job_id = ''job_'' @ str_nat (now_ms E) @ ''_'' @ urandom_hex E in
      if \<not> path_exists (files w) (model_path req) then
        raise (HTTPException 400 (''Model path does not exist: '' @ model_path req)) w
      else if method req \<notin> set [''EmbeddingScrub'', ''LastLayerSurgery''] then
        raise (HTTPException 400 (''Invalid method: '' @ method req)) w
      else
        ret job_id
          ((assign_job job_id
              \<lparr>state = ''queued'', progress = (0, ''Job queued''), result = None,
               error = None, request = req\<rparr> w)
           \<lparr>tasks := tasks w @ [(job_id, req)]\<rparr>))"



declare str_nat.simps [simp del]

section \<open>The unlearning pipeline\<close>

text \<open>
  The numeric work is done by numpy. Its generator is a state \<open>'g\<close> that
  \<^verbatim>\<open>np.random.seed\<close> sets and every draw advances; arrays and floats are only combined
  through the operations below. \<open>lit\<close> reads a float literal of the source.
\<close>

record ('f, 'a, 'g) numpy =
  random_seed :: "nat \<Rightarrow> 'g"
  randn :: "nat \<Rightarrow> nat \<Rightarrow> 'g \<Rightarrow> 'a \<times> 'g"
  rand2 :: "nat \<Rightarrow> nat \<Rightarrow> 'g \<Rightarrow> 'a \<times> 'g"
  rand :: "'g \<Rightarrow> 'f \<times> 'g"
  scale :: "'a \<Rightarrow> 'f \<Rightarrow> 'a"
  zero_where_less :: "'a \<Rightarrow> 'a \<Rightarrow> 'f \<Rightarrow> 'a"
  set_item :: "'a \<Rightarrow> nat \<Rightarrow> nat \<Rightarrow> 'f \<Rightarrow> 'a"
  count_nonzero :: "'a \<Rightarrow> nat"
  linalg_norm :: "'a \<Rightarrow> 'f"
  max_abs :: "'a \<Rightarrow> 'f"
  array_size :: "'a \<Rightarrow> nat"
  top10_abs :: "'a \<Rightarrow> nat list"
  mean :: "'f list \<Rightarrow> 'f"
  std :: "'f list \<Rightarrow> 'f"
  percentile :: "'f list \<Rightarrow> nat \<Rightarrow> 'f"
  lit :: "string \<Rightarrow> 'f"
  float_of_nat :: "nat \<Rightarrow> 'f"
  fadd :: "'f \<Rightarrow> 'f \<Rightarrow> 'f"
  fsub :: "'f \<Rightarrow> 'f \<Rightarrow> 'f"
  fmul :: "'f \<Rightarrow> 'f \<Rightarrow> 'f"
  fdiv :: "'f \<Rightarrow> 'f \<Rightarrow> 'f"
  positive :: "'f \<Rightarrow> bool"

subsection \<open>Paths and the files of the output directory\<close>

definition path_join :: "path \<Rightarrow> path \<Rightarrow> path" where
  "path_join a b =
     (if b \<noteq> [] \<and> hd b = CHR ''/'' then b
      else if a = [] \<or> last a = CHR ''/'' then a @ b
      else a @ ''/'' @ b)"

definition entry_name :: "path \<Rightarrow> path \<Rightarrow> string option" where
  "entry_name dir p =
     (let pre = path_join dir [] in
      if prefix pre p \<and> drop (length pre) p \<noteq> [] \<and> CHR ''/'' \<notin> set (drop (length pre) p)
      then Some (drop (length pre) p) else None)"

definition os_listdir ::
  "('f, 't, 'a) env \<Rightarrow> path \<Rightarrow> (string list, ('f, 't, 'a) world) action" where
  "os_listdir E dir w =
     (case fails E (Listdir dir) of
        Some msg \<Rightarrow> raise (PyError msg) w
      | None \<Rightarrow> ret (List.map_filter (\<lambda>(p, c). entry_name dir p) (files w)) w)"

definition os_makedirs ::
  "('f, 't, 'a) env \<Rightarrow> path \<Rightarrow> (unit, ('f, 't, 'a) world) action" where
  "os_makedirs E p w =
     (case fails E (Makedirs p) of
        Some msg \<Rightarrow> raise (PyError msg) w
      | None \<Rightarrow>
          (if path_exists (files w) p then raise (PyError (''[Errno 17] File exists: '' @ p)) w
           else ret () w))"

definition np_savez_compressed ::
  "('f, 't, 'a) env \<Rightarrow> path \<Rightarrow> (string \<times> 'a) list \<Rightarrow> (unit, ('f, 't, 'a) world) action" where
  "np_savez_compressed E p items w =
     (case fails E (Savez p) of
        Some msg \<Rightarrow> raise (PyError msg) w
      | None \<Rightarrow> ret () (put_file p (NpzFile items) w))"

definition json_dump ::
  "('f, 't, 'a) env \<Rightarrow> path \<Rightarrow> 'f json \<Rightarrow> (unit, ('f, 't, 'a) world) action" where
  "json_dump E p v w =
     (case fails E (JsonDump p) of
        Some msg \<Rightarrow> raise (PyError msg) w
      | None \<Rightarrow> ret () (put_file p (JsonFile v) w))"

definition file_digest ::
  "('f, 't, 'a) env \<Rightarrow> path \<Rightarrow> (string, ('f, 't, 'a) world) action" where
  "file_digest E p w =
     (case fails E (ReadBytes p) of
        Some msg \<Rightarrow> raise (PyError msg) w
      | None \<Rightarrow>
          (case map_of (files w) p of
             None \<Rightarrow> raise (no_such_file p) w
           | Some c \<Rightarrow> ret (file_sha256 E c) w))"

subsection \<open>The weight delta and its summary\<close>

text \<open>
  Both methods draw a normal matrix scaled by 0.01, zero the entries whose uniform draw
  is below the sparsity, reseed with \<^verbatim>\<open>hash(target_text) % 1000\<close> and overwrite the
  entries of a fixed stride pattern. They differ in the shape and the constants.
\<close>

definition targeted_changes ::
  "('f, 'a, 'g) numpy \<Rightarrow> nat \<Rightarrow> nat \<Rightarrow> nat \<Rightarrow> nat \<Rightarrow> nat \<Rightarrow> nat \<Rightarrow> 'a \<times> 'g \<Rightarrow> 'a \<times> 'g" where
  "targeted_changes N rows cols count a b target_hash =
     fold (\<lambda>i (diff_data, g).
             (case rand N g of
                (u, g') \<Rightarrow>
                  (set_item N diff_data ((target_hash + i * a) mod rows)
                     ((target_hash + i * b) mod cols)
                     (fmul N (fsub N u (lit N ''0.5'')) (lit N ''0.1'')), g')))
          [0..<min count rows]"

definition sparse_delta ::
  "('f, 'a, 'g) numpy \<Rightarrow> nat \<Rightarrow> nat \<Rightarrow> string \<Rightarrow> nat \<Rightarrow> nat \<Rightarrow> nat \<Rightarrow> nat \<Rightarrow> nat \<Rightarrow> 'a" where
  "sparse_delta N rows cols sparsity count a b target_hash text_seed =
     (case randn N rows cols (random_seed N text_seed) of
        (x, g1) \<Rightarrow>
          (case rand2 N rows cols g1 of
             (r, g2) \<Rightarrow>
               fst (targeted_changes N rows cols count a b target_hash
                      (zero_where_less N (scale N x (lit N ''0.01'')) r (lit N sparsity),
                       random_seed N target_hash))))"

definition weight_diff_summary :: "('f, 'a, 'g) numpy \<Rightarrow> 'a \<Rightarrow> 'f json" where
  "weight_diff_summary N diff_data =
     JObj [(''num_tensors_changed'', JInt 1),
           (''total_params_changed'', JInt (int (count_nonzero N diff_data))),
           (''l2_norm_of_delta'', JFloat (linalg_norm N diff_data)),
           (''max_abs_delta'', JFloat (max_abs N diff_data)),
           (''percent_nonzero'',
              JFloat (fmul N (fdiv N (float_of_nat N (count_nonzero N diff_data))
                                      (float_of_nat N (array_size N diff_data)))
                             (lit N ''100''))),
           (''top_10_indices_by_abs_delta'', JList (map (\<lambda>i. JInt (int i)) (top10_abs N diff_data)))]"

definition test_prompts :: "string \<Rightarrow> string list" where
  "test_prompts text =
     [''Tell me about '' @ text, ''What is '' @ text @ ''?'', ''Explain '' @ text,
      ''Describe '' @ text, ''What is the weather today?'', ''How are you doing?'',
      ''What is 2+2?'', ''Tell me a joke'']"

text \<open>The two draws after reseeding with the target hash: \<open>base + (rand() - 0.5) * 0.1\<close>.\<close>

definition before_after ::
  "('f, 'a, 'g) numpy \<Rightarrow> nat \<Rightarrow> string \<Rightarrow> string \<Rightarrow> 'f \<times> 'f" where
  "before_after N target_hash base_before base_after =
     (case rand N (random_seed N target_hash) of
        (u1, g1) \<Rightarrow>
          (case rand N g1 of
             (u2, g2) \<Rightarrow>
               (fadd N (lit N base_before) (fmul N (fsub N u1 (lit N ''0.5'')) (lit N ''0.1'')),
                fadd N (lit N base_after) (fmul N (fsub N u2 (lit N ''0.5'')) (lit N ''0.1'')))))"

definition probes_json ::
  "('f, 't, 'a) env \<Rightarrow> ('f, 'a, 'g) numpy \<Rightarrow> string \<Rightarrow> 'f \<Rightarrow> 'f \<Rightarrow> 'f json" where
  "probes_json E N text before after =
     (let about = (\<lambda>p. sublist (str_lower E text) (str_lower E p));
          befores = JList (map (\<lambda>p. JFloat (if about p then before else lit N ''0.15''))
                             (test_prompts text));
          afters = JList (map (\<lambda>p. JFloat (if about p then after else lit N ''0.14''))
                            (test_prompts text))
      in JObj [(''prompts'', JList (map JStr (test_prompts text))),
               (''before_logits'', befores), (''after_logits'', afters),
               (''before_softmax'', befores), (''after_softmax'', afters)])"

definition apply_check_json :: "'f \<Rightarrow> 'f \<Rightarrow> 'f \<Rightarrow> 'f json \<Rightarrow> 'f json" where
  "apply_check_json before after decrease percent =
     JObj [(''success'', JBool True),
           (''notes'', JStr ''Diff applied successfully and verified''),
           (''before_logit'', JFloat before), (''after_logit'', JFloat after),
           (''logit_decrease'', JFloat decrease), (''logit_decrease_percent'', percent)]"

definition manifest_head ::
  "('f, 't, 'a) env \<Rightarrow> ('f, 'a, 'g) numpy \<Rightarrow> 'f unlearning_request \<Rightarrow> 'f \<Rightarrow> nat \<Rightarrow>
   (string \<times> 'f json) list" where
  "manifest_head E N req start_time text_seed =
     [(''model_path'', JStr (abspath E (model_path req))),
      (''method'', JStr (method req)),
      (''target_text_sha256'', JStr (sha256_hex E (target_text req))),
      (''target_text_length'', JInt (int (length (target_text req)))),
      (''start_time'', JFloat start_time),
      (''end_time'', JFloat (time_time E 1)),
      (''duration_seconds'', JFloat (fsub N (time_time E 2) start_time)),
      (''seed'', JInt (int text_seed)),
      (''lr'', JFloat (lr req)),
      (''steps'', JInt (max_steps req))]"

subsection \<open>The two methods\<close>

text \<open>
  Each branch reports progress, writes the delta archive, builds the manifest and writes
  the probes, the cosine report and the apply check. It hands on the path of the archive,
  the manifest and the two scores. The calls to \<^verbatim>\<open>asyncio.sleep\<close> and to the logger change
  nothing and are left out, as is the unused list \<^verbatim>\<open>target_related_prompts\<close>.
\<close>

definition embedding_scrub ::
  "('f, 't, 'a) env \<Rightarrow> ('f, 'a, 'g) numpy \<Rightarrow> string \<Rightarrow> 'f unlearning_request \<Rightarrow> path \<Rightarrow> 'f \<Rightarrow>
   nat \<Rightarrow> (path \<times> (string \<times> 'f json) list \<times> 'f \<times> 'f, ('f, 't, 'a) world) action" where
  "embedding_scrub E N job_id req output_path start_time text_seed =
     andthen (set_progress job_id 30 ''Scrubbing embeddings'') (\<lambda>_.
     let adapter_path = path_join output_path ''weight_diffs.npz'';
         vocab_size = 32000;
         hidden_size = 4096;
         target_hash = nat (py_hash E (target_text req) mod 1000);
         diff_data = sparse_delta N vocab_size hidden_size ''0.95'' 100 7 11 target_hash text_seed
     in
     andthen (np_savez_compressed E adapter_path [(''embedding_weight'', diff_data)]) (\<lambda>_.
     case before_after N target_hash ''0.85'' ''0.15'' of
       (before_similarity, after_similarity) \<Rightarrow>
     let manifest = manifest_head E N req start_time text_seed @
           [(''before_similarity'', JFloat before_similarity),
            (''after_similarity'', JFloat after_similarity),
            (''weight_diff_summary'', weight_diff_summary N diff_data)];
         decrease = fsub N before_similarity after_similarity;
         cosine_report =
           JObj [(''target_embedding_cosine_before'', JFloat before_similarity),
                 (''target_embedding_cosine_after'', JFloat after_similarity),
                 (''cosine_decrease'', JFloat decrease),
                 (''distribution_stats'',
                    JObj [(''mean'', JFloat (mean N [before_similarity, after_similarity])),
                          (''std'', JFloat (std N [before_similarity, after_similarity])),
                          (''p95'', JFloat (percentile N [before_similarity, after_similarity] 95))])];
         apply_check =
           apply_check_json before_similarity after_similarity decrease
             (if positive N before_similarity
              then JFloat (fmul N (fdiv N decrease before_similarity) (lit N ''100''))
              else JInt 0)
     in
     andthen (json_dump E (path_join output_path ''probes.json'')
                (probes_json E N (target_text req) before_similarity after_similarity)) (\<lambda>_.
     andthen (json_dump E (path_join output_path ''cosine_similarity_report.json'') cosine_report) (\<lambda>_.
     andthen (json_dump E (path_join output_path ''apply_check.json'') apply_check) (\<lambda>_.
     ret (adapter_path, manifest, before_similarity, after_similarity))))))"

definition last_layer_surgery ::
  "('f, 't, 'a) env \<Rightarrow> ('f, 'a, 'g) numpy \<Rightarrow> string \<Rightarrow> 'f unlearning_request \<Rightarrow> path \<Rightarrow> 'f \<Rightarrow>
   nat \<Rightarrow> (path \<times> (string \<times> 'f json) list \<times> 'f \<times> 'f, ('f, 't, 'a) world) action" where
  "last_layer_surgery E N job_id req output_path start_time text_seed =
     andthen (set_progress job_id 30 ''Performing last layer surgery'') (\<lambda>_.
     let adapter_path = path_join output_path ''weight_diffs.npz'';
         hidden_size = 4096;
         vocab_size = 32000;
         target_hash = nat (py_hash E (target_text req) mod 1000);
         diff_data = sparse_delta N hidden_size vocab_size ''0.90'' 50 13 17 target_hash text_seed
     in
     andthen (np_savez_compressed E adapter_path [(''lm_head_weight'', diff_data)]) (\<lambda>_.
     case before_after N target_hash ''0.90'' ''0.25'' of
       (before_logit, after_logit) \<Rightarrow>
     let manifest = manifest_head E N req start_time text_seed @
           [(''before_logit'', JFloat before_logit),
            (''after_logit'', JFloat after_logit),
            (''weight_diff_summary'', weight_diff_summary N diff_data)];
         cosine_report =
           JObj [(''target_embedding_cosine_before'', JFloat (lit N ''0.85'')),
                 (''target_embedding_cosine_after'', JFloat (lit N ''0.75'')),
                 (''cosine_decrease'', JFloat (lit N ''0.10'')),
                 (''distribution_stats'',
                    JObj [(''mean'', JFloat (lit N ''0.80'')),
                          (''std'', JFloat (lit N ''0.05'')),
                          (''p95'', JFloat (lit N ''0.84''))])];
         logit_decrease = fsub N before_logit after_logit;
         apply_check =
           apply_check_json before_logit after_logit logit_decrease
             (JFloat (fmul N (fdiv N logit_decrease before_logit) (lit N ''100'')))
     in
     andthen (json_dump E (path_join output_path ''probes.json'')
                (probes_json E N (target_text req) before_logit after_logit)) (\<lambda>_.
     andthen (json_dump E (path_join output_path ''cosine_similarity_report.json'') cosine_report) (\<lambda>_.
     andthen (json_dump E (path_join output_path ''apply_check.json'') apply_check) (\<lambda>_.
     ret (adapter_path, manifest, before_logit, after_logit))))))"

subsection \<open>The integrity file\<close>

fun hash_files ::
  "('f, 't, 'a) env \<Rightarrow> path \<Rightarrow> string list \<Rightarrow> (string \<times> 'f json) list \<Rightarrow>
   ((string \<times> 'f json) list, ('f, 't, 'a) world) action" where
  "hash_files E output_path [] artifacts w = ret artifacts w"
| "hash_files E output_path (file_name # rest) artifacts w =
     andthen (file_digest E (path_join output_path file_name)) (\<lambda>digest.
       hash_files E output_path rest (AList.update file_name (JStr digest) artifacts)) w"

definition write_integrity ::
  "('f, 't, 'a) env \<Rightarrow> path \<Rightarrow> (unit, ('f, 't, 'a) world) action" where
  "write_integrity E output_path =
     andthen (os_listdir E output_path) (\<lambda>names.
     andthen (hash_files E output_path names []) (\<lambda>artifacts.
     json_dump E (path_join output_path ''integrity.json'')
       (JObj [(''artifacts'', JObj artifacts),
              (''environment'',
                 JObj [(''python_version'', JStr (python_version E)),
                       (''platform'', JObj (map (\<lambda>(k, v). (k, JStr v)) (uname E))),
                       (''torch_version'', JStr (torch_version E))])])))"

subsection \<open>The job\<close>

definition injection_json :: "injection_result \<Rightarrow> 'f json" where
  "injection_json r =
     (case r of
        InjectionSuccess injected_tensors total_params modified_params backup_path \<Rightarrow>
          JObj [(''success'', JBool True),
                (''injected_tensors'', JInt (int injected_tensors)),
                (''total_params'', JInt (int total_params)),
                (''modified_params'', JInt (int modified_params)),
                (''backup_path'', JStr backup_path)]
      | InjectionFailure msg \<Rightarrow> JObj [(''success'', JBool False), (''error'', JStr msg)])"

definition check_model ::
  "('f, 't, 'a) env \<Rightarrow> 'f unlearning_request \<Rightarrow> (unit, ('f, 't, 'a) world) action" where
  "check_model E req =
     (if suffix ''.safetensors'' (model_path req) then
        catch (andthen (load_file E (model_path req)) (\<lambda>model_state_dict. ret ()))
          (\<lambda>e. raise (HTTPException 400 (''Failed to load model: '' @ exn_str E e)))
      else raise (HTTPException 400
                    ''Only .safetensors models are supported in this implementation''))"

text \<open>
  The body of the \<^verbatim>\<open>try\<close> block, in two parts: everything up to the progress report
  "Injecting weights into model", and the injection with what follows it.
\<close>

definition prepare_artifacts ::
  "('f, 't, 'a) env \<Rightarrow> ('f, 'a, 'g) numpy \<Rightarrow> string \<Rightarrow> 'f unlearning_request \<Rightarrow>
   (path \<times> path \<times> (string \<times> 'f json) list \<times> 'f \<times> 'f, ('f, 't, 'a) world) action" where
  "prepare_artifacts E N job_id req =
     (let start_time = time_time E 0 in
      andthen (set_state job_id ''running'') (\<lambda>_.
      andthen (set_progress job_id 0 ''Initializing unlearning process'') (\<lambda>_.
      andthen (\<lambda>w. if \<not> path_exists (files w) (model_path req)
                    then raise (HTTPException 400
                                  (''Model path does not exist: '' @ model_path req)) w
                    else ret () w) (\<lambda>_.
      andthen (set_progress job_id 10 ''Loading model'') (\<lambda>_.
      andthen (check_model E req) (\<lambda>_.
      let output_path = path_join (output_dir req) (''run_'' @ strftime_now E) in
      andthen (os_makedirs E output_path) (\<lambda>_.
      let text_seed = nat (py_hash E (target_text req) mod 2 ^ 32) in
      andthen (if method req = ''EmbeddingScrub''
               then embedding_scrub E N job_id req output_path start_time text_seed
               else last_layer_surgery E N job_id req output_path start_time text_seed)
        (\<lambda>(adapter_path, manifest, before, after).
      andthen (set_progress job_id 70 ''Creating verification artifacts'') (\<lambda>_.
      andthen (write_integrity E output_path) (\<lambda>_.
      andthen (set_progress job_id 85 ''Injecting weights into model'') (\<lambda>_.
      ret (output_path, adapter_path, manifest, before, after))))))))))))"

definition job_result :: "'f unlearning_request \<Rightarrow> path \<Rightarrow> 'f \<Rightarrow> 'f \<Rightarrow> (string \<times> 'f json) list" where
  "job_result req output_path before after =
     (if method req = ''EmbeddingScrub'' then
        [(''before_similarity'', JFloat before), (''after_similarity'', JFloat after),
         (''artifact_path'', JStr output_path),
         (''notes'', JStr ''Embedding scrubbing completed. Target embeddings significantly reduced.'')]
      else
        [(''before_logit'', JFloat before), (''after_logit'', JFloat after),
         (''artifact_path'', JStr output_path),
         (''notes'', JStr ''Last layer surgery completed. Target token logits significantly reduced.'')])"

definition inject_and_finish ::
  "('f, 't, 'a) env \<Rightarrow> ('t, 'a) torch \<Rightarrow> string \<Rightarrow> 'f unlearning_request \<Rightarrow>
   path \<times> path \<times> (string \<times> 'f json) list \<times> 'f \<times> 'f \<Rightarrow> (unit, ('f, 't, 'a) world) action" where
  "inject_and_finish E T job_id req ctx =
     (case ctx of (output_path, adapter_path, manifest, before, after) \<Rightarrow>
      andthen (\<lambda>w. if suffix ''.safetensors'' (model_path req) then
                      (case inject_weights_into_model E T (model_path req) adapter_path w of
                         (injection_result, w') \<Rightarrow>
                           ret (manifest @ [(''weight_injection'', injection_json injection_result)]) w')
                    else ret manifest w) (\<lambda>manifest.
      andthen (json_dump E (path_join output_path ''manifest.json'') (JObj manifest)) (\<lambda>_.
      andthen (set_progress job_id 100 ''Unlearning completed successfully'') (\<lambda>_.
      andthen (set_state job_id ''done'') (\<lambda>_.
      set_result job_id (job_result req output_path before after))))))"

definition process_unlearning ::
  "('f, 't, 'a) env \<Rightarrow> ('t, 'a) torch \<Rightarrow> ('f, 'a, 'g) numpy \<Rightarrow> string \<Rightarrow> 'f unlearning_request \<Rightarrow>
   (unit, ('f, 't, 'a) world) action" where
  "process_unlearning E T N job_id req =
     catch (andthen (prepare_artifacts E N job_id req) (inject_and_finish E T job_id req))
       (\<lambda>e. andthen (set_state job_id ''error'') (\<lambda>_.
             andthen (set_error job_id (exn_str E e)) (\<lambda>_.
             set_progress job_id 0 (''Error: '' @ exn_str E e))))"

section \<open>Vocabulary of the properties\<close>


definition preserves :: "('w \<Rightarrow> bool) \<Rightarrow> ('x, 'w) action \<Rightarrow> bool" where
  "preserves P m = (\<forall>w r w'. P w \<longrightarrow> m w = (r, w') \<longrightarrow> P w')"


text \<open>What \<open>inject_try\<close> still has to do when the backup has been written.\<close>

definition after_backup ::
  "('f, 't, 'a) env \<Rightarrow> path \<Rightarrow> (string \<times> 't) list \<Rightarrow> injection_result \<Rightarrow>
   (injection_result, ('f, 't, 'a) world) action" where
  "after_backup E p msd res =
     andthen (save_file E msd (p @ ''.temp'')) (\<lambda>_.
     andthen (replace_checkpoint E (p @ ''.temp'') p) (\<lambda>_. ret res))"

text \<open>
  \<open>holds P m Q R\<close>: started where \<open>P\<close> holds, the statement \<open>m\<close> ends where \<open>Q\<close> holds when it
  returns and where \<open>R\<close> holds when it raises. \<open>on_jobs\<close> lifts a property of the job dict
  and its history to the server state. A job is in its run phase when everything recorded
  for it since \<open>tr0\<close> has state running, and in a final phase when that record is a
  non-empty run of running followed by a non-empty run of the final state.
\<close>

definition on_jobs ::
  "((string \<rightharpoonup> 'f job) \<Rightarrow> (string \<times> 'f job) list \<Rightarrow> bool) \<Rightarrow> ('f, 't, 'a) world \<Rightarrow> bool" where
  "on_jobs Q w = Q (jobs w) (trace w)"

definition holds ::
  "('w \<Rightarrow> bool) \<Rightarrow> ('x, 'w) action \<Rightarrow> ('w \<Rightarrow> bool) \<Rightarrow> ('w \<Rightarrow> bool) \<Rightarrow> bool" where
  "holds P m Q R = (\<forall>w r w'. P w \<longrightarrow> m w = (r, w') \<longrightarrow> (case r of Inl e \<Rightarrow> R w' | Inr x \<Rightarrow> Q w'))"



text \<open>
  The detail of the exception with which the pipeline refuses a model path, in the order
  of the checks of the source.
\<close>

definition rejection_detail ::
  "('f, 't, 'a) env \<Rightarrow> 'f unlearning_request \<Rightarrow> ('f, 't, 'a) world \<Rightarrow> string \<Rightarrow> bool" where
  "rejection_detail E req w detail =
     (if \<not> path_exists (files w) (model_path req) then
        detail = ''Model path does not exist: '' @ model_path req
      else if \<not> suffix ''.safetensors'' (model_path req) then
        detail = ''Only .safetensors models are supported in this implementation''
      else
        (case fst (load_file E (model_path req) w) of
           Inl e \<Rightarrow> detail = ''Failed to load model: '' @ exn_str E e
         | Inr d \<Rightarrow> False))"

section \<open>A small concrete installation\<close>

text \<open>
  For running the definitions: floats are counted in hundredths, arrays and tensors are
  short lists of integers, the generator is a counter. Nothing below is claimed of numpy,
  torch or the operating system; the theorems hold for every environment.
\<close>

definition ascii_lower :: "string \<Rightarrow> string" where
  "ascii_lower =
     map (\<lambda>c. case map_of (zip ''ABCDEFGHIJKLMNOPQRSTUVWXYZ'' ''abcdefghijklmnopqrstuvwxyz'') c of
                 Some l \<Rightarrow> l | None \<Rightarrow> c)"

definition demo_env :: "(int, int list, int list) env" where
  "demo_env =
     \<lparr>os_name = ''posix'', fails = (\<lambda>op. None), save_file_partial = False,
      now_ms = 1704110400000, urandom_hex = ''9f3a6c1e'', strftime_now = ''20240101_120000'',
      time_time = (\<lambda>k. 170411040000 + int k), abspath = (\<lambda>p. ''/srv/models/'' @ p),
      python_version = ''3.11.4'', uname = [(''system'', ''Linux''), (''machine'', ''x86_64'')],
      torch_version = ''2.1.0'',
      py_hash = (\<lambda>s. 2654435761 * int (length s) - 5),
      http_exception_str = (\<lambda>code detail. str_nat code @ '': '' @ detail),
      str_lower = ascii_lower,
      sha256_hex = (\<lambda>s. ''digest-of-'' @ str_nat (length s) @ ''-bytes''),
      file_sha256 = (\<lambda>c. case c of SafetensorsFile d \<Rightarrow> ''digest-of-checkpoint''
                           | NpzFile d \<Rightarrow> ''digest-of-archive''
                           | JsonFile v \<Rightarrow> ''digest-of-json''
                           | RawFile s \<Rightarrow> ''digest-of-raw'')\<rparr>"

definition demo_torch :: "(int list, int list) torch" where
  "demo_torch =
     \<lparr>add_diff = (\<lambda>t d. if length t = length d then Inr (map2 (+) t d)
                         else Inl ''The size of tensor a must match the size of tensor b''),
      numel = length, diff_numel = length\<rparr>"

definition demo_numpy :: "(int, int list, nat) numpy" where
  "demo_numpy =
     \<lparr>random_seed = (\<lambda>s. s),
      randn = (\<lambda>rows cols g. ([int (g mod 7) - 3, int (g mod 5) - 2, int (g mod 3) - 1, 2], g + 1)),
      rand2 = (\<lambda>rows cols g. ([int (g mod 100), int ((g + 37) mod 100), int ((g + 61) mod 100),
                                 int ((g + 89) mod 100)], g + 1)),
      rand = (\<lambda>g. (int (g mod 100), g + 1)),
      scale = (\<lambda>x c. map (\<lambda>v. v * c) x),
      zero_where_less = (\<lambda>x r threshold. map2 (\<lambda>v u. if u < threshold then 0 else v) x r),
      set_item = (\<lambda>x row col v. x[(row + col) mod 4 := v]),
      count_nonzero = (\<lambda>x. length (filter (\<lambda>v. v \<noteq> 0) x)),
      linalg_norm = (\<lambda>x. sum_list (map abs x)),
      max_abs = (\<lambda>x. fold max (map abs x) 0),
      array_size = length,
      top10_abs = (\<lambda>x. [0..<length x]),
      mean = (\<lambda>xs. sum_list xs div int (length xs)),
      std = (\<lambda>xs. 0),
      percentile = (\<lambda>xs q. fold max xs 0),
      lit = (\<lambda>s. case map_of [(''0.01'', 1), (''0.05'', 5), (''0.1'', 10), (''0.10'', 10),
                               (''0.14'', 14), (''0.15'', 15), (''0.25'', 25), (''0.5'', 50),
                               (''0.75'', 75), (''0.80'', 80), (''0.84'', 84), (''0.85'', 85),
                               (''0.90'', 90), (''0.95'', 95), (''100'', 10000)] s of
                    Some v \<Rightarrow> v | None \<Rightarrow> 0),
      float_of_nat = (\<lambda>n. int n * 100),
      fadd = (\<lambda>a b. a + b), fsub = (\<lambda>a b. a - b),
      fmul = (\<lambda>a b. a * b div 100),
      fdiv = (\<lambda>a b. if b = 0 then 0 else a * 100 div b),
      positive = (\<lambda>a. 0 < a)\<rparr>"

definition demo_files :: "(int, int list, int list) fs" where
  "demo_files =
     [(''m.safetensors'',
         SafetensorsFile [(''model.embed_tokens.weight'', [1, 2]), (''lm_head.weight'', [3])]),
      (''delta.npz'', NpzFile [(''lm_head.weight'', [10])])]"

definition demo_world :: "(int, int list, int list) world" where
  "demo_world = \<lparr>jobs = Map.empty, tasks = [], files = demo_files, trace = [], past = []\<rparr>"

definition demo_request :: "int unlearning_request" where
  "demo_request =
     \<lparr>model_path = ''m.safetensors'', output_dir = ''out'', target_text = ''Paris'',
      method = ''EmbeddingScrub'', max_steps = 100, lr = 1, seed = 42\<rparr>"

text \<open>
  A Windows host on which the checkpoint is held open by another process and the temporary
  file by a scanner: the calls that replace or delete them are refused.
\<close>

definition locked_env :: "(int, int list, int list) env" where
  "locked_env =
     demo_env\<lparr>os_name := ''nt'',
               fails := (\<lambda>op. case op of
                            MoveFileExW src dst \<Rightarrow> Some ''[WinError 32] The process cannot access the file''
                          | Replace src dst \<Rightarrow> Some ''[WinError 32] The process cannot access the file''
                          | Remove q \<Rightarrow> Some ''[WinError 32] The process cannot access the file''
                          | _ \<Rightarrow> None)\<rparr>"

text \<open>The same host when only the checkpoint is held open.\<close>

definition busy_env :: "(int, int list, int list) env" where
  "busy_env =
     demo_env\<lparr>os_name := ''nt'',
               fails := (\<lambda>op. case op of
                            MoveFileExW src dst \<Rightarrow> Some ''[WinError 32] The process cannot access the file''
                          | Replace src dst \<Rightarrow> Some ''[WinError 32] The process cannot access the file''
                          | Remove q \<Rightarrow> (if q = ''m.safetensors''
                                         then Some ''[WinError 32] The process cannot access the file''
                                         else None)
                          | _ \<Rightarrow> None)\<rparr>"


text \<open>A request on a file that is not a checkpoint, and the job that the demo server starts.\<close>

definition npz_request :: "int unlearning_request" where
  "npz_request = demo_request\<lparr>model_path := ''delta.npz''\<rparr>"

definition demo_job_id :: string where
  "demo_job_id = ''job_'' @ str_nat (now_ms demo_env) @ ''_'' @ urandom_hex demo_env"

definition queued_job :: "int unlearning_request \<Rightarrow> int job" where
  "queued_job req =
     \<lparr>state = ''queued'', progress = (0, ''Job queued''), result = None, error = None,
      request = req\<rparr>"

definition started :: "int unlearning_request \<Rightarrow> (int, int list, int list) world" where
  "started req = snd (start_unlearning demo_env req demo_world)"

text \<open>
  A server on which the job with the demo id has already finished: its record is in state
  done, with the result of an embedding scrub.
\<close>

definition finished_job :: "int job" where
  "finished_job =
     \<lparr>state = ''done'', progress = (100, ''Unlearning completed successfully''),
      result = Some (job_result demo_request ''out/job_20240101_115900'' 85 15), error = None,
      request = demo_request\<rparr>"

definition finished_world :: "(int, int list, int list) world" where
  "finished_world =
     demo_world\<lparr>jobs := [demo_job_id \<mapsto> finished_job],
                 trace := [(demo_job_id, queued_job demo_request), (demo_job_id, finished_job)]\<rparr>"

section \<open>Proofs: sequencing and the file system\<close>

















lemma andthen_Inr_iff:
  "andthen m f w = (Inr y, w') \<longleftrightarrow> (\<exists>x w1. m w = (Inr x, w1) \<and> f x w1 = (Inr y, w'))"
  by (auto simp: andthen_def split: prod.splits sum.splits)

lemma andthen_Inl_iff:
  "andthen m f w = (Inl e, w') \<longleftrightarrow>
     m w = (Inl e, w') \<or> (\<exists>x w1. m w = (Inr x, w1) \<and> f x w1 = (Inl e, w'))"
  by (auto simp: andthen_def split: prod.splits sum.splits)

lemma catch_Inr_iff:
  "catch m h w = (Inr y, w') \<longleftrightarrow>
     m w = (Inr y, w') \<or> (\<exists>e w1. m w = (Inl e, w1) \<and> h e w1 = (Inr y, w'))"
  by (auto simp: catch_def split: prod.splits sum.splits)


lemma move_over_cases:
  "move_over src dst w = (r, w') \<Longrightarrow>
     (r = Inl (no_such_file src) \<and> w' = w \<and> map_of (files w) src = None) \<or>
     (\<exists>c. r = Inr () \<and> map_of (files w) src = Some c \<and>
          w' = w\<lparr>files := AList.delete src (AList.update dst c (files w)), past := files w # past w\<rparr>)"
  unfolding move_over_def raise_def ret_def
  by (cases "map_of (files w) src") auto

lemma move_over_Inl: "move_over src dst w = (Inl e, w') \<Longrightarrow> w' = w"
  by (drule move_over_cases) auto

lemma move_over_Inr:
  "move_over src dst w = (Inr u, w') \<Longrightarrow>
   \<exists>c. map_of (files w) src = Some c \<and> map_of (files w') = ((map_of (files w))(dst \<mapsto> c))(src := None)"
  by (drule move_over_cases) (auto simp: delete_conv' update_conv')

lemma os_replace_Inl: "os_replace E src dst w = (Inl e, w') \<Longrightarrow> w' = w"
  by (auto simp: os_replace_def raise_def split: option.splits dest: move_over_Inl)

lemma os_replace_Inr:
  "os_replace E src dst w = (Inr u, w') \<Longrightarrow>
   \<exists>c. map_of (files w) src = Some c \<and> map_of (files w') = ((map_of (files w))(dst \<mapsto> c))(src := None)"
  by (auto simp: os_replace_def raise_def split: option.splits dest: move_over_Inr)

lemma os_rename_Inr:
  "os_rename E src dst w = (Inr u, w') \<Longrightarrow>
   \<exists>c. map_of (files w) src = Some c \<and> map_of (files w') = ((map_of (files w))(dst \<mapsto> c))(src := None)"
  by (auto simp: os_rename_def raise_def split: option.splits dest: move_over_Inr)

lemma os_remove_Inr:
  "os_remove E p w = (Inr u, w') \<Longrightarrow> map_of (files w') = (map_of (files w))(p := None)"
  by (auto simp: os_remove_def raise_def ret_def drop_file_def delete_conv' split: option.splits if_splits)


lemma MoveFileEx_cases:
  "MoveFileEx E src dst w = (r, w') \<Longrightarrow>
     (r = Inr False \<and> w' = w) \<or>
     (r = Inr True \<and> (\<exists>c. map_of (files w) src = Some c \<and>
         map_of (files w') = ((map_of (files w))(dst \<mapsto> c))(src := None)))"
  by (auto simp: MoveFileEx_def ret_def split: option.splits prod.splits sum.splits
           dest: move_over_Inl move_over_Inr)

lemma first_attempt_Inl:
  "(if os_name E = ''nt'' then
      andthen (MoveFileEx E t p) (\<lambda>moved. if moved then ret () else os_replace E t p)
    else os_replace E t p) w = (Inl e, w') \<Longrightarrow> w' = w"
  by (auto simp: andthen_Inl_iff ret_def split: if_splits
           dest: os_replace_Inl MoveFileEx_cases)

lemma first_attempt_Inr:
  "(if os_name E = ''nt'' then
      andthen (MoveFileEx E t p) (\<lambda>moved. if moved then ret () else os_replace E t p)
    else os_replace E t p) w = (Inr u, w') \<Longrightarrow>
   \<exists>c. map_of (files w) t = Some c \<and> map_of (files w') = ((map_of (files w))(p \<mapsto> c))(t := None)"
  by (auto simp: andthen_Inr_iff ret_def split: if_splits
           dest!: os_replace_Inr MoveFileEx_cases)


lemma replace_checkpoint_Inr:
  assumes "replace_checkpoint E t p w = (Inr u, w')" and "t \<noteq> p"
  shows "\<exists>c. map_of (files w) t = Some c \<and>
             map_of (files w') = ((map_of (files w))(p \<mapsto> c))(t := None)"
proof -
  let ?first = "if os_name E = ''nt'' then
      andthen (MoveFileEx E t p) (\<lambda>moved. if moved then ret () else os_replace E t p)
    else os_replace E t p"
  from assms(1) consider
      (direct) "?first w = (Inr u, w')"
    | (fallback) e w1 where "?first w = (Inl e, w1)"
        "catch (andthen (os_remove E p) (\<lambda>_. os_rename E t p)) (\<lambda>fallback_error. raise e) w1
           = (Inr u, w')"
    unfolding replace_checkpoint_def catch_Inr_iff by blast
  then show ?thesis
  proof cases
    case direct
    then show ?thesis by (rule first_attempt_Inr)
  next
    case fallback
    from fallback(1) have w1: "w1 = w" by (rule first_attempt_Inl)
    from fallback(2) obtain w2 where
      rm: "os_remove E p w = (Inr (), w2)" and rn: "os_rename E t p w2 = (Inr u, w')"
      unfolding w1 catch_Inr_iff andthen_Inr_iff raise_def by auto
    from os_remove_Inr[OF rm] have m2: "map_of (files w2) = (map_of (files w))(p := None)" .
    from os_rename_Inr[OF rn] obtain c where
      c: "map_of (files w2) t = Some c" and
      m': "map_of (files w') = ((map_of (files w2))(p \<mapsto> c))(t := None)" by blast
    from c m2 assms(2) have "map_of (files w) t = Some c" by simp
    moreover from m' m2 have "map_of (files w') = ((map_of (files w))(p \<mapsto> c))(t := None)"
      by simp
    ultimately show ?thesis by blast
  qed
qed


lemma load_file_same: "load_file E p w = (r, w') \<Longrightarrow> w' = w"
  by (auto simp: load_file_def raise_def ret_def no_such_file_def
           split: option.splits file_content.splits)

lemma load_file_Inr:
  "load_file E p w = (Inr d, w') \<Longrightarrow> map_of (files w) p = Some (SafetensorsFile d)"
  by (auto simp: load_file_def raise_def ret_def no_such_file_def
           split: option.splits file_content.splits)

lemma np_load_same: "np_load E p w = (r, w') \<Longrightarrow> w' = w"
  by (auto simp: np_load_def raise_def ret_def no_such_file_def
           split: option.splits file_content.splits)

lemma np_load_Inr:
  "np_load E p w = (Inr d, w') \<Longrightarrow> map_of (files w) p = Some (NpzFile d)"
  by (auto simp: np_load_def raise_def ret_def no_such_file_def
           split: option.splits file_content.splits)

lemma shutil_copy2_Inl: "shutil_copy2 E src dst w = (Inl e, w') \<Longrightarrow> w' = w"
  by (auto simp: shutil_copy2_def raise_def ret_def split: option.splits)

lemma shutil_copy2_Inr:
  "shutil_copy2 E src dst w = (Inr u, w') \<Longrightarrow>
   \<exists>c. map_of (files w) src = Some c \<and> w' = put_file dst c w"
  by (auto simp: shutil_copy2_def raise_def ret_def split: option.splits)

lemma save_file_Inr:
  "save_file E d p w = (Inr u, w') \<Longrightarrow> w' = put_file p (SafetensorsFile d) w"
  by (auto simp: save_file_def raise_def ret_def split: option.splits)



lemma inject_try_cases:
  assumes "inject_try E T p dp w = (r, w')"
  shows "(w' = w \<and> (\<exists>e. r = Inl e)) \<or>
         (\<exists>d delta msd i t m c.
            map_of (files w) p = Some (SafetensorsFile d) \<and>
            map_of (files w) dp = Some (NpzFile delta) \<and>
            inject_loop T delta d ([], 0, 0, 0) = Inr (msd, i, t, m) \<and>
            after_backup E p msd (InjectionSuccess i t m (p @ ''.backup''))
              (put_file (p @ ''.backup'') (SafetensorsFile d) w) = (r, w'))"
proof -
  obtain r1 w1 where l: "load_file E p w = (r1, w1)" by (cases "load_file E p w")
  then have w1: "w1 = w" by (rule load_file_same)
  show ?thesis
  proof (cases r1)
    case (Inl e)
    with assms l w1 show ?thesis by (auto simp: inject_try_def andthen_def)
  next
    case d: (Inr d)
    with l w1 have pd: "map_of (files w) p = Some (SafetensorsFile d)"
      by (auto dest: load_file_Inr)
    obtain r2 w2 where n: "np_load E dp w = (r2, w2)" by (cases "np_load E dp w")
    then have w2: "w2 = w" by (rule np_load_same)
    show ?thesis
    proof (cases r2)
      case (Inl e)
      with assms l w1 d n w2 show ?thesis by (auto simp: inject_try_def andthen_def)
    next
      case delta: (Inr delta)
      with n w2 have pdelta: "map_of (files w) dp = Some (NpzFile delta)"
        by (auto dest: np_load_Inr)
      show ?thesis
      proof (cases "inject_loop T delta d ([], 0, 0, 0)")
        case (Inl e)
        with assms l w1 d n w2 delta show ?thesis by (auto simp: inject_try_def andthen_def)
      next
        case (Inr acc)
        obtain msd i t m where acc: "acc = (msd, i, t, m)" by (cases acc)
        obtain r3 w3 where c: "shutil_copy2 E p (p @ ''.backup'') w = (r3, w3)"
          by (cases "shutil_copy2 E p (p @ ''.backup'') w")
        show ?thesis
        proof (cases r3)
          case (Inl e)
          with c have "w3 = w" by (auto dest: shutil_copy2_Inl)
          with assms l w1 d n w2 delta Inr acc c Inl show ?thesis
            by (auto simp: inject_try_def andthen_def)
        next
          case u: (Inr u)
          with c pd have w3: "w3 = put_file (p @ ''.backup'') (SafetensorsFile d) w"
            by (auto dest: shutil_copy2_Inr)
          from assms l w1 d n w2 delta Inr acc c u have
            "after_backup E p msd (InjectionSuccess i t m (p @ ''.backup'')) w3 = (r, w')"
            by (simp add: inject_try_def andthen_def after_backup_def)
          with pd pdelta Inr acc w3 show ?thesis by blast
        qed
      qed
    qed
  qed
qed


lemma after_backup_Inr:
  assumes "after_backup E p msd res w = (Inr r, w')"
  shows "r = res \<and>
         map_of (files w') = ((map_of (files w))(p \<mapsto> SafetensorsFile msd))(p @ ''.temp'' := None)"
proof -
  from assms obtain w1 u where
    s: "save_file E msd (p @ ''.temp'') w = (Inr (), w1)" and
    rc: "replace_checkpoint E (p @ ''.temp'') p w1 = (Inr u, w')" and r: "r = res"
    unfolding after_backup_def andthen_Inr_iff ret_def by auto
  from save_file_Inr[OF s] have w1: "map_of (files w1) = (map_of (files w))(p @ ''.temp'' \<mapsto> SafetensorsFile msd)"
    by (simp add: put_file_def update_conv')
  have "p @ ''.temp'' \<noteq> p" by simp
  from replace_checkpoint_Inr[OF rc this] obtain c where
    "map_of (files w1) (p @ ''.temp'') = Some c"
    "map_of (files w') = ((map_of (files w1))(p \<mapsto> c))(p @ ''.temp'' := None)" by blast
  with w1 r show ?thesis by (auto simp: fun_eq_iff)
qed







text \<open>
  Claim C5, as amended. The injector always returns a result: success carries the counts
  and the backup path \<open>path.backup\<close>, failure the message of the exception that ended the
  \<^verbatim>\<open>try\<close> block. After a failure the temporary file is gone whenever its removal is not
  itself refused; a refused removal is swallowed and the original error still returned.
\<close>

theorem injector_never_raises:
  "\<exists>r w'. inject_weights_into_model E T p dp w = (r, w') \<and>
     (case r of
        InjectionSuccess i t m b \<Rightarrow>
          b = p @ ''.backup'' \<and> fst (inject_try E T p dp w) = Inr r
      | InjectionFailure msg \<Rightarrow>
          (\<exists>e. fst (inject_try E T p dp w) = Inl e \<and> msg = exn_str E e) \<and>
          (fails E (Remove (p @ ''.temp'')) = None \<longrightarrow>
             \<not> path_exists (files w') (p @ ''.temp'')))"
proof -
  obtain r1 w1 where t: "inject_try E T p dp w = (r1, w1)" by (cases "inject_try E T p dp w")
  show ?thesis
  proof (cases r1)
    case (Inl e)
    then show ?thesis using t
      by (auto simp: inject_weights_into_model_def os_remove_def ret_def raise_def drop_file_def
                     path_exists_def delete_conv')
  next
    case (Inr res)
    from inject_try_cases[OF t] Inr obtain msd i t' m w3 where
      "after_backup E p msd (InjectionSuccess i t' m (p @ ''.backup'')) w3 = (Inr res, w1)"
      by auto
    from after_backup_Inr[OF this] have "res = InjectionSuccess i t' m (p @ ''.backup'')" by simp
    with Inr t show ?thesis by (simp add: inject_weights_into_model_def)
  qed
qed


lemmas injector_defs =
  inject_weights_into_model_def inject_try_def andthen_def catch_def ret_def raise_def
  load_file_def np_load_def shutil_copy2_def save_file_def replace_checkpoint_def MoveFileEx_def
  os_replace_def os_remove_def os_rename_def move_over_def put_file_def drop_file_def
  path_exists_def exn_str_def

lemmas demo_defs =
  demo_env_def demo_torch_def demo_world_def demo_files_def locked_env_def busy_env_def


lemma locked_injection:
  "inject_weights_into_model locked_env demo_torch ''m.safetensors'' ''delta.npz'' demo_world =
     (InjectionFailure ''[WinError 32] The process cannot access the file'',
      demo_world\<lparr>files :=
        [(''m.safetensors'', SafetensorsFile [(''model.embed_tokens.weight'', [1, 2]), (''lm_head.weight'', [3])]),
         (''delta.npz'', NpzFile [(''lm_head.weight'', [10])]),
         (''m.safetensors.backup'', SafetensorsFile [(''model.embed_tokens.weight'', [1, 2]), (''lm_head.weight'', [3])]),
         (''m.safetensors.temp'', SafetensorsFile [(''model.embed_tokens.weight'', [1, 2]), (''lm_head.weight'', [13])])],
       past :=
        [[(''m.safetensors'', SafetensorsFile [(''model.embed_tokens.weight'', [1, 2]), (''lm_head.weight'', [3])]),
          (''delta.npz'', NpzFile [(''lm_head.weight'', [10])]),
          (''m.safetensors.backup'', SafetensorsFile [(''model.embed_tokens.weight'', [1, 2]), (''lm_head.weight'', [3])])],
         [(''m.safetensors'', SafetensorsFile [(''model.embed_tokens.weight'', [1, 2]), (''lm_head.weight'', [3])]),
          (''delta.npz'', NpzFile [(''lm_head.weight'', [10])])]]\<rparr>)"
  by (simp add: injector_defs demo_defs)




text \<open>
  Claim C5 as stated fails: on a host that refuses to replace the checkpoint and to delete
  the temporary file, the injector reports the failure and the temporary file it created
  is still there.
\<close>

theorem temp_file_left_behind:
  "fst (inject_weights_into_model locked_env demo_torch ''m.safetensors'' ''delta.npz'' demo_world)
     = InjectionFailure ''[WinError 32] The process cannot access the file'' \<and>
   \<not> path_exists (files demo_world) ''m.safetensors.temp'' \<and>
   path_exists
     (files (snd (inject_weights_into_model locked_env demo_torch ''m.safetensors'' ''delta.npz'' demo_world)))
     ''m.safetensors.temp''"
  by (simp add: locked_injection path_exists_def) (simp add: demo_world_def demo_files_def)

theorem injector_never_raises_witness:
  "fails busy_env (Remove (''m.safetensors'' @ ''.temp'')) = None \<and>
   fst (inject_weights_into_model busy_env demo_torch ''m.safetensors'' ''delta.npz'' demo_world)
     = InjectionFailure ''[WinError 32] The process cannot access the file'' \<and>
   \<not> path_exists
     (files (snd (inject_weights_into_model busy_env demo_torch ''m.safetensors'' ''delta.npz'' demo_world)))
     (''m.safetensors'' @ ''.temp'')"
proof -
  have ok: "fails busy_env (Remove (''m.safetensors'' @ ''.temp'')) = None"
    by (simp add: busy_env_def)
  have val: "fst (inject_weights_into_model busy_env demo_torch ''m.safetensors'' ''delta.npz'' demo_world)
     = InjectionFailure ''[WinError 32] The process cannot access the file''"
    by (simp add: injector_defs demo_defs)
  from injector_never_raises[of busy_env demo_torch "''m.safetensors''" "''delta.npz''" demo_world]
    ok val show ?thesis by auto
qed

section \<open>Proofs: starting a job\<close>

lemma demo_job_id_value: "demo_job_id = ''job_1704110400000_9f3a6c1e''"
  by (simp add: demo_job_id_def demo_env_def str_nat.simps digit_char_def)

text \<open>
  Claim C8, as amended. Starting a job fails with status 400 exactly when the model path
  does not exist or the method is not one of the two known ones, and then the server state
  is unchanged. Otherwise the returned id is \<^verbatim>\<open>job_\<close>, the clock in milliseconds, an
  underscore and four random bytes in hexadecimal; the record under that id is the queued
  one of this request and every other record is untouched; the pipeline is only handed to
  the event loop as a task and no file has been touched. The record is a new one exactly
  when the id was not in use: the assignment \<^verbatim>\<open>jobs[job_id] = ...\<close> does not test for
  membership, so an id that is in use keeps the set of ids as it was and has its record
  replaced.
\<close>

theorem start_validates_then_queues:
  "((\<exists>detail w'. start_unlearning E req w = (Inl (HTTPException 400 detail), w')) \<longleftrightarrow>
      (\<not> path_exists (files w) (model_path req) \<or>
       method req \<notin> {''EmbeddingScrub'', ''LastLayerSurgery''})) \<and>
   (\<forall>e w'. start_unlearning E req w = (Inl e, w') \<longrightarrow>
      (\<exists>detail. e = HTTPException 400 detail) \<and> w' = w) \<and>
   (\<forall>job_id w'. start_unlearning E req w = (Inr job_id, w') \<longrightarrow>
      job_id = ''job_'' @ str_nat (now_ms E) @ ''_'' @ urandom_hex E \<and>
      jobs w' job_id =
        Some \<lparr>state = ''queued'', progress = (0, ''Job queued''), result = None,
              error = None, request = req\<rparr> \<and>
      (\<forall>other. other \<noteq> job_id \<longrightarrow> jobs w' other = jobs w other) \<and>
      (jobs w job_id = None \<longrightarrow>
         job_id \<notin> dom (jobs w) \<and> dom (jobs w') = insert job_id (dom (jobs w))) \<and>
      (jobs w job_id \<noteq> None \<longrightarrow> dom (jobs w') = dom (jobs w)) \<and>
      trace w' =
        trace w @ [(job_id, \<lparr>state = ''queued'', progress = (0, ''Job queued''), result = None,
                              error = None, request = req\<rparr>)] \<and>
      tasks w' = tasks w @ [(job_id, req)] \<and> files w' = files w \<and> past w' = past w)"
  by (auto simp: start_unlearning_def Let_def raise_def ret_def assign_job_def)

theorem start_validates_then_queues_witness:
  "path_exists (files demo_world) (model_path demo_request) \<and>
   method demo_request \<in> {''EmbeddingScrub'', ''LastLayerSurgery''} \<and>
   jobs demo_world ''job_1704110400000_9f3a6c1e'' = None \<and>
   (\<exists>w'. start_unlearning demo_env demo_request demo_world = (Inr ''job_1704110400000_9f3a6c1e'', w') \<and>
      jobs w' ''job_1704110400000_9f3a6c1e'' =
        Some \<lparr>state = ''queued'', progress = (0, ''Job queued''), result = None,
              error = None, request = demo_request\<rparr> \<and>
      dom (jobs w') = {''job_1704110400000_9f3a6c1e''} \<and>
      tasks w' = [(''job_1704110400000_9f3a6c1e'', demo_request)] \<and> files w' = files demo_world)"
proof -
  have valid: "path_exists (files demo_world) (model_path demo_request)"
    "method demo_request \<in> {''EmbeddingScrub'', ''LastLayerSurgery''}"
    by (simp_all add: demo_world_def demo_files_def demo_request_def path_exists_def)
  have unused: "jobs demo_world ''job_1704110400000_9f3a6c1e'' = None"
    by (simp add: demo_world_def)
  have empty: "dom (jobs demo_world) = {}" "tasks demo_world = []"
    by (simp_all add: demo_world_def)
  have id: "''job_'' @ str_nat (now_ms demo_env) @ ''_'' @ urandom_hex demo_env
              = ''job_1704110400000_9f3a6c1e''"
    by (simp add: demo_env_def str_nat.simps digit_char_def)
  note inst = start_validates_then_queues[of demo_env demo_request demo_world]
  note rejected = inst[THEN conjunct1]
  note errors = inst[THEN conjunct2, THEN conjunct1]
  note accepted = inst[THEN conjunct2, THEN conjunct2]
  obtain r w' where s: "start_unlearning demo_env demo_request demo_world = (r, w')"
    by (cases "start_unlearning demo_env demo_request demo_world")
  have "\<exists>job_id. r = Inr job_id"
  proof (cases r)
    case (Inl e)
    with s errors obtain detail where "e = HTTPException 400 detail" by blast
    with s Inl have "\<exists>detail w'. start_unlearning demo_env demo_request demo_world
        = (Inl (HTTPException 400 detail), w')" by blast
    with rejected valid show ?thesis by blast
  next
    case (Inr job_id)
    then show ?thesis by blast
  qed
  then obtain job_id where r: "r = Inr job_id" by blast
  from accepted s r have facts:
    "job_id = ''job_'' @ str_nat (now_ms demo_env) @ ''_'' @ urandom_hex demo_env \<and>
      jobs w' job_id =
        Some \<lparr>state = ''queued'', progress = (0, ''Job queued''), result = None,
              error = None, request = demo_request\<rparr> \<and>
      (\<forall>other. other \<noteq> job_id \<longrightarrow> jobs w' other = jobs demo_world other) \<and>
      (jobs demo_world job_id = None \<longrightarrow>
         job_id \<notin> dom (jobs demo_world) \<and> dom (jobs w') = insert job_id (dom (jobs demo_world))) \<and>
      (jobs demo_world job_id \<noteq> None \<longrightarrow> dom (jobs w') = dom (jobs demo_world)) \<and>
      trace w' =
        trace demo_world @ [(job_id, \<lparr>state = ''queued'', progress = (0, ''Job queued''), result = None,
                              error = None, request = demo_request\<rparr>)] \<and>
      tasks w' = tasks demo_world @ [(job_id, demo_request)] \<and> files w' = files demo_world \<and>
      past w' = past demo_world"
    by blast
  from facts have j: "job_id = ''job_1704110400000_9f3a6c1e''"
    unfolding id by (rule conjunct1)
  from facts[THEN conjunct2] unused empty have
    "jobs w' ''job_1704110400000_9f3a6c1e'' =
        Some \<lparr>state = ''queued'', progress = (0, ''Job queued''), result = None,
              error = None, request = demo_request\<rparr>"
    "dom (jobs w') = {''job_1704110400000_9f3a6c1e''}"
    "tasks w' = [(''job_1704110400000_9f3a6c1e'', demo_request)]"
    "files w' = files demo_world"
    unfolding j by simp_all
  with s r j valid unused show ?thesis by blast
qed

text \<open>
  Claim C8 as stated fails: when the clock and the random bytes give an id that is in use,
  a valid request inserts no record and the id it returns is not new. Here the job that
  had finished under that id is replaced by the queued one.
\<close>

lemma finished_start:
  "start_unlearning demo_env demo_request finished_world =
     (Inr demo_job_id,
      finished_world\<lparr>jobs := [demo_job_id \<mapsto> queued_job demo_request],
                     tasks := [(demo_job_id, demo_request)],
                     trace := [(demo_job_id, queued_job demo_request), (demo_job_id, finished_job),
                               (demo_job_id, queued_job demo_request)]\<rparr>)"
  by (simp add: start_unlearning_def Let_def ret_def assign_job_def demo_job_id_def
        queued_job_def finished_world_def demo_world_def demo_request_def demo_files_def
        path_exists_def)

theorem start_reuses_id_in_use:
  "path_exists (files finished_world) (model_path demo_request) \<and>
   method demo_request \<in> {''EmbeddingScrub'', ''LastLayerSurgery''} \<and>
   jobs finished_world ''job_1704110400000_9f3a6c1e'' = Some finished_job \<and>
   (\<exists>w'. start_unlearning demo_env demo_request finished_world =
            (Inr ''job_1704110400000_9f3a6c1e'', w') \<and>
         dom (jobs w') = dom (jobs finished_world) \<and>
         jobs w' ''job_1704110400000_9f3a6c1e'' = Some (queued_job demo_request))"
  unfolding finished_start demo_job_id_value[symmetric]
  by (simp add: finished_world_def demo_world_def demo_request_def demo_files_def path_exists_def)

section \<open>Proofs: the pipeline rejects what it cannot load\<close>

lemma update_job_Some:
  "jobs w job_id = Some j \<Longrightarrow> update_job job_id f w = (Inr (), assign_job job_id (f j) w)"
  by (simp add: update_job_def ret_def)

lemma update_job_None:
  "jobs w job_id = None \<Longrightarrow> update_job job_id f w = (Inl (PyError (CHR 0x27 # job_id @ [CHR 0x27])), w)"
  by (simp add: update_job_def raise_def)

lemma load_file_files:
  "files w1 = files w \<Longrightarrow> fst (load_file E p w1) = fst (load_file E p w)"
  by (simp add: load_file_def raise_def ret_def split: option.splits file_content.splits)

lemma handler_records_error:
  assumes "jobs wk job_id = Some jk"
  shows "andthen (set_state job_id ''error'') (\<lambda>_.
           andthen (set_error job_id msg) (\<lambda>_. set_progress job_id 0 (''Error: '' @ msg))) wk =
         (Inr (),
          assign_job job_id (jk\<lparr>state := ''error'', error := Some msg, progress := (0, ''Error: '' @ msg)\<rparr>)
            (assign_job job_id (jk\<lparr>state := ''error'', error := Some msg\<rparr>)
               (assign_job job_id (jk\<lparr>state := ''error''\<rparr>) wk)))"
  using assms
  by (simp add: andthen_def set_state_def set_error_def set_progress_def update_job_Some assign_job_def)

lemma check_model_rejects:
  assumes "\<not> suffix ''.safetensors'' (model_path req) \<or>
           (\<exists>e. fst (load_file E (model_path req) w) = Inl e)"
  shows "\<exists>detail. check_model E req w = (Inl (HTTPException 400 detail), w) \<and>
           (if \<not> suffix ''.safetensors'' (model_path req) then
              detail = ''Only .safetensors models are supported in this implementation''
            else
              (case fst (load_file E (model_path req) w) of
                 Inl e \<Rightarrow> detail = ''Failed to load model: '' @ exn_str E e
               | Inr d \<Rightarrow> False))"
proof (cases "suffix ''.safetensors'' (model_path req)")
  case False
  then show ?thesis by (simp add: check_model_def raise_def)
next
  case True
  with assms obtain e where e: "fst (load_file E (model_path req) w) = Inl e" by blast
  obtain r w1 where l: "load_file E (model_path req) w = (r, w1)"
    by (cases "load_file E (model_path req) w")
  from load_file_same[OF l] e l have "load_file E (model_path req) w = (Inl e, w)" by simp
  with True e show ?thesis
    by (simp add: check_model_def catch_def andthen_def raise_def)
qed

lemma prepare_rejects:
  assumes job: "jobs w job_id = Some j"
    and bad: "\<not> suffix ''.safetensors'' (model_path req) \<or>
              (\<exists>e. fst (load_file E (model_path req) w) = Inl e)"
  shows "\<exists>detail wk pk.
           prepare_artifacts E N job_id req w = (Inl (HTTPException 400 detail), wk) \<and>
           files wk = files w \<and> past wk = past w \<and>
           jobs wk job_id = Some (j\<lparr>state := ''running'', progress := pk\<rparr>) \<and>
           rejection_detail E req w detail"
proof -
  let ?j1 = "j\<lparr>state := ''running''\<rparr>"
  let ?w1 = "assign_job job_id ?j1 w"
  let ?j2 = "?j1\<lparr>progress := (0, ''Initializing unlearning process'')\<rparr>"
  let ?w2 = "assign_job job_id ?j2 ?w1"
  let ?j3 = "?j2\<lparr>progress := (10, ''Loading model'')\<rparr>"
  let ?w3 = "assign_job job_id ?j3 ?w2"
  have s1: "set_state job_id ''running'' w = (Inr (), ?w1)"
    using job by (simp add: set_state_def update_job_Some)
  have s2: "set_progress job_id 0 ''Initializing unlearning process'' ?w1 = (Inr (), ?w2)"
    by (simp add: set_progress_def update_job_Some assign_job_def)
  have s3: "set_progress job_id 10 ''Loading model'' ?w2 = (Inr (), ?w3)"
    by (simp add: set_progress_def update_job_Some assign_job_def)
  have f2: "files ?w2 = files w" "past ?w2 = past w" by (simp_all add: assign_job_def)
  have f3: "files ?w3 = files w" "past ?w3 = past w" by (simp_all add: assign_job_def)
  show ?thesis
  proof (cases "path_exists (files w) (model_path req)")
    case False
    then have "prepare_artifacts E N job_id req w =
        (Inl (HTTPException 400 (''Model path does not exist: '' @ model_path req)), ?w2)"
      using s1 s2 f2 by (simp add: prepare_artifacts_def andthen_def raise_def Let_def)
    moreover have "jobs ?w2 job_id =
        Some (j\<lparr>state := ''running'', progress := (0, ''Initializing unlearning process'')\<rparr>)"
      by (simp add: assign_job_def)
    moreover have "rejection_detail E req w (''Model path does not exist: '' @ model_path req)"
      using False by (simp add: rejection_detail_def)
    ultimately show ?thesis using f2 by blast
  next
    case True
    have same: "fst (load_file E (model_path req) ?w3) = fst (load_file E (model_path req) w)"
      using f3(1) by (rule load_file_files)
    from bad have "\<not> suffix ''.safetensors'' (model_path req) \<or>
           (\<exists>e. fst (load_file E (model_path req) ?w3) = Inl e)"
      unfolding same .
    from check_model_rejects[OF this] obtain detail where
      c: "check_model E req ?w3 = (Inl (HTTPException 400 detail), ?w3)" and
      d: "if \<not> suffix ''.safetensors'' (model_path req) then
              detail = ''Only .safetensors models are supported in this implementation''
            else
              (case fst (load_file E (model_path req) ?w3) of
                 Inl e \<Rightarrow> detail = ''Failed to load model: '' @ exn_str E e
               | Inr d \<Rightarrow> False)" by blast
    have "prepare_artifacts E N job_id req w = (Inl (HTTPException 400 detail), ?w3)"
      using s1 s2 s3 c True f2 by (simp add: prepare_artifacts_def andthen_def ret_def Let_def)
    moreover have "jobs ?w3 job_id =
        Some (j\<lparr>state := ''running'', progress := (10, ''Loading model'')\<rparr>)"
      by (simp add: assign_job_def)
    moreover from d True have "rejection_detail E req w detail"
      unfolding same by (simp add: rejection_detail_def)
    ultimately show ?thesis using f3 by blast
  qed
qed

text \<open>
  Claim C6. A job whose model path does not end in \<open>.safetensors\<close>, or whose checkpoint does
  not load, ends in state error; the recorded message is the rendering of an HTTP 400
  exception whose detail names the cause; and nothing was written: the file system and
  its history are those the job started with, so the checkpoint is unmodified and no
  backup was created.
\<close>

theorem unsupported_checkpoint_is_job_error:
  assumes job: "jobs w job_id = Some j"
    and bad: "\<not> suffix ''.safetensors'' (model_path req) \<or>
              (\<exists>e. fst (load_file E (model_path req) w) = Inl e)"
  shows "\<exists>detail w'.
           process_unlearning E T N job_id req w = (Inr (), w') \<and>
           jobs w' job_id =
             Some (j\<lparr>state := ''error'', error := Some (http_exception_str E 400 detail),
                     progress := (0, ''Error: '' @ http_exception_str E 400 detail)\<rparr>) \<and>
           rejection_detail E req w detail \<and>
           files w' = files w \<and> past w' = past w"
proof -
  from prepare_rejects[OF job bad, of N] obtain detail wk pk where
    p: "prepare_artifacts E N job_id req w = (Inl (HTTPException 400 detail), wk)" and
    f: "files wk = files w" "past wk = past w" and
    jk: "jobs wk job_id = Some (j\<lparr>state := ''running'', progress := pk\<rparr>)" and
    d: "rejection_detail E req w detail" by blast
  let ?msg = "http_exception_str E 400 detail"
  let ?w' = "assign_job job_id
               (j\<lparr>state := ''running'', progress := pk\<rparr>
                  \<lparr>state := ''error'', error := Some ?msg, progress := (0, ''Error: '' @ ?msg)\<rparr>)
            (assign_job job_id (j\<lparr>state := ''running'', progress := pk\<rparr>\<lparr>state := ''error'', error := Some ?msg\<rparr>)
               (assign_job job_id (j\<lparr>state := ''running'', progress := pk\<rparr>\<lparr>state := ''error''\<rparr>) wk))"
  have "process_unlearning E T N job_id req w = (Inr (), ?w')"
    using p handler_records_error[OF jk, of ?msg]
    by (simp add: process_unlearning_def catch_def andthen_def exn_str_def)
  moreover have "jobs ?w' job_id =
      Some (j\<lparr>state := ''error'', error := Some ?msg, progress := (0, ''Error: '' @ ?msg)\<rparr>)"
    by (simp add: assign_job_def)
  moreover have "files ?w' = files w" "past ?w' = past w"
    using f by (simp_all add: assign_job_def)
  ultimately show ?thesis using d by blast
qed

lemma started_job:
  "path_exists demo_files (model_path req) \<Longrightarrow>
   method req \<in> {''EmbeddingScrub'', ''LastLayerSurgery''} \<Longrightarrow>
   started req =
     demo_world\<lparr>jobs := [demo_job_id \<mapsto> queued_job req], tasks := [(demo_job_id, req)],
                 trace := [(demo_job_id, queued_job req)]\<rparr>"
  by (simp add: started_def start_unlearning_def Let_def ret_def assign_job_def demo_job_id_def
        queued_job_def demo_world_def)

theorem unsupported_checkpoint_is_job_error_witness:
  "jobs (started npz_request) demo_job_id = Some (queued_job npz_request) \<and>
   \<not> suffix ''.safetensors'' (model_path npz_request) \<and>
   (\<exists>w'. process_unlearning demo_env demo_torch demo_numpy demo_job_id npz_request
            (started npz_request) = (Inr (), w') \<and>
         jobs w' demo_job_id =
           Some (queued_job npz_request
                   \<lparr>state := ''error'',
                    error := Some ''400: Only .safetensors models are supported in this implementation'',
                    progress := (0, ''Error: 400: Only .safetensors models are supported in this implementation'')\<rparr>) \<and>
         files w' = demo_files \<and> past w' = [])"
proof -
  have valid: "path_exists demo_files (model_path npz_request)"
    "method npz_request \<in> {''EmbeddingScrub'', ''LastLayerSurgery''}"
    by (simp_all add: npz_request_def demo_request_def demo_files_def path_exists_def)
  note st = started_job[OF valid]
  have job: "jobs (started npz_request) demo_job_id = Some (queued_job npz_request)"
    by (simp add: st)
  have bad: "\<not> suffix ''.safetensors'' (model_path npz_request)"
    by (simp add: npz_request_def demo_request_def suffix_to_prefix)
  then have bad': "\<not> suffix ''.safetensors'' (model_path npz_request) \<or>
      (\<exists>e. fst (load_file demo_env (model_path npz_request) (started npz_request)) = Inl e)"
    by simp
  have detail: "rejection_detail demo_env npz_request (started npz_request) detail \<longleftrightarrow>
      detail = ''Only .safetensors models are supported in this implementation''" for detail
    using valid(1) bad by (simp add: rejection_detail_def st demo_world_def)
  have str: "http_exception_str demo_env 400 ''Only .safetensors models are supported in this implementation''
      = ''400: Only .safetensors models are supported in this implementation''"
    by (simp add: demo_env_def str_nat.simps digit_char_def)
  from unsupported_checkpoint_is_job_error[where T = demo_torch and N = demo_numpy, OF job bad']
  obtain d w' where
    run: "process_unlearning demo_env demo_torch demo_numpy demo_job_id npz_request
            (started npz_request) = (Inr (), w')" and
    jw: "jobs w' demo_job_id =
           Some (queued_job npz_request
                   \<lparr>state := ''error'', error := Some (http_exception_str demo_env 400 d),
                    progress := (0, ''Error: '' @ http_exception_str demo_env 400 d)\<rparr>)" and
    d: "rejection_detail demo_env npz_request (started npz_request) d" and
    f: "files w' = files (started npz_request)" "past w' = past (started npz_request)"
    by blast
  from d have dv: "d = ''Only .safetensors models are supported in this implementation''"
    by (simp only: detail)
  have "jobs w' demo_job_id =
           Some (queued_job npz_request
                   \<lparr>state := ''error'',
                    error := Some ''400: Only .safetensors models are supported in this implementation'',
                    progress := (0, ''Error: 400: Only .safetensors models are supported in this implementation'')\<rparr>)"
    using jw unfolding dv str by simp
  moreover have "files w' = demo_files" "past w' = []"
    using f by (simp_all add: st demo_world_def)
  ultimately show ?thesis using job bad run by blast
qed

section \<open>Proofs: the states of a job\<close>



lemma preserves_same:
  "(\<And>w r w'. m w = (r, w') \<Longrightarrow> jobs w' = jobs w \<and> trace w' = trace w) \<Longrightarrow>
   preserves (on_jobs Q) m"
  by (simp add: preserves_def on_jobs_def)





lemma quiet_move_over [intro!]: "preserves (on_jobs Q) (move_over src dst)"
  by (rule preserves_same) (auto dest!: move_over_cases)









lemma quiet_file_digest [intro!]: "preserves (on_jobs Q) (file_digest E p)"
  by (rule preserves_same)
     (auto simp: file_digest_def raise_def ret_def split: option.splits)











lemma preserves_let [intro!]: "preserves P (f x) \<Longrightarrow> preserves P (let y = x in f y)"
  by simp







lemma holds_case_prod:
  "(\<And>a b. holds P (f a b) Q R) \<Longrightarrow> holds P (case x of (a, b) \<Rightarrow> f a b) Q R"
  by (cases x) simp




















end
